theory Spec2Isabelle
  imports Complex_Main "HOL-Library.Char_ord" "HOL-Library.List_Lexorder" "HOL-Library.Multiset"
begin

section \<open>The exchange client of \<^verbatim>\<open>binance-service.ts\<close>\<close>

text \<open>
  The class \<^verbatim>\<open>BinanceService\<close> is embedded function by function. Its mutable fields,
  the wall clock, the requests put on the wire and the string arrays shared with callers
  are fields of one state record that every method takes and returns. What the class calls
  but does not define is a parameter: the HMAC of \<^verbatim>\<open>crypto\<close>, \<^verbatim>\<open>parseFloat\<close>, and the
  exchange behind \<^verbatim>\<open>axios\<close>. Console output is not modelled.
\<close>

subsection \<open>Numbers\<close>

text \<open>
  A JavaScript number is modelled as a real or \<^verbatim>\<open>NaN\<close>: arithmetic is exact (no rounding,
  no overflow to an infinity), and \<^verbatim>\<open>NaN\<close> propagates and compares false, as it does in
  the language.
\<close>

datatype jsnum = NaN | Fin real

fun jadd :: "jsnum \<Rightarrow> jsnum \<Rightarrow> jsnum" where
  "jadd (Fin a) (Fin b) = Fin (a + b)"
| "jadd _ _ = NaN"

fun jsub :: "jsnum \<Rightarrow> jsnum \<Rightarrow> jsnum" where
  "jsub (Fin a) (Fin b) = Fin (a - b)"
| "jsub _ _ = NaN"

fun jmul :: "jsnum \<Rightarrow> jsnum \<Rightarrow> jsnum" where
  "jmul (Fin a) (Fin b) = Fin (a * b)"
| "jmul _ _ = NaN"

fun jgt :: "jsnum \<Rightarrow> jsnum \<Rightarrow> bool" where
  "jgt (Fin a) (Fin b) = (a > b)"
| "jgt _ _ = False"

fun falsy :: "jsnum \<Rightarrow> bool" where
  "falsy NaN = True"
| "falsy (Fin a) = (a = 0)"

definition jor :: "jsnum \<Rightarrow> jsnum \<Rightarrow> jsnum" where
  \<comment> \<open>\<^verbatim>\<open>x || d\<close> on numbers\<close>
  "jor x d = (if falsy x then d else x)"

subsection \<open>Strings\<close>

fun join :: "string \<Rightarrow> string list \<Rightarrow> string" where
  \<comment> \<open>\<^verbatim>\<open>Array.prototype.join\<close>\<close>
  "join sep [] = []"
| "join sep [x] = x"
| "join sep (x # y # ys) = x @ sep @ join sep (y # ys)"

definition digit :: "nat \<Rightarrow> char" where
  "digit d =
     (if d = 0 then CHR ''0'' else if d = 1 then CHR ''1'' else if d = 2 then CHR ''2''
      else if d = 3 then CHR ''3'' else if d = 4 then CHR ''4'' else if d = 5 then CHR ''5''
      else if d = 6 then CHR ''6'' else if d = 7 then CHR ''7'' else if d = 8 then CHR ''8''
      else CHR ''9'')"

function showNat :: "nat \<Rightarrow> string" where
  "showNat n = (if n < 10 then [digit n] else showNat (n div 10) @ [digit (n mod 10)])"
  by pat_completeness auto
termination
  by (relation "measure id") auto

declare showNat.simps [simp del]

definition showInt :: "int \<Rightarrow> string" where
  \<comment> \<open>an integral number inside a template literal\<close>
  "showInt i = (if i < 0 then CHR ''-'' # showNat (nat (- i)) else showNat (nat i))"

subsection \<open>Data\<close>

record PriceData =
  symbol :: string
  price :: string

record AssetBalance =
  asset :: string
  free :: string
  locked :: string

record AccountInfo =
  balances :: "AssetBalance list"

record ParsedAsset =
  pa_asset :: string
  pa_free :: jsnum
  pa_locked :: jsnum
  pa_total :: jsnum
  usdtValue :: jsnum
  pa_type :: string
  currentPrice :: "jsnum option"

record PortfolioData =
  totalUSDT :: jsnum
  assets :: "ParsedAsset list"
  lastUpdated :: int

subsection \<open>The wire\<close>

record request =
  \<comment> \<open>an axios request configuration\<close>
  req_method :: string
  req_url :: string
  req_headers :: "(string \<times> string) list"
  req_data :: "string option"
  req_timeout :: "nat option"

record reply =
  \<comment> \<open>what the class reads of a response besides its payload:
      \<^verbatim>\<open>status\<close>, \<^verbatim>\<open>statusText\<close> and \<^verbatim>\<open>data.msg\<close>\<close>
  status :: nat
  statusText :: string
  data_msg :: "string option"

record axios_error =
  err_response :: "reply option"
  err_code :: "string option"
  err_request :: bool
  err_message :: string

datatype error = Error string | AxiosError axios_error | TypeError string

text \<open>The fields a \<^verbatim>\<open>catch\<close> block reads of whatever was thrown.\<close>

fun response_of :: "error \<Rightarrow> reply option" where
  "response_of (AxiosError e) = err_response e"
| "response_of _ = None"

fun code_of :: "error \<Rightarrow> string option" where
  "code_of (AxiosError e) = err_code e"
| "code_of _ = None"

fun request_of :: "error \<Rightarrow> bool" where
  "request_of (AxiosError e) = err_request e"
| "request_of _ = False"

fun message_of :: "error \<Rightarrow> string" where
  "message_of (Error m) = m"
| "message_of (AxiosError e) = err_message e"
| "message_of (TypeError m) = m"

text \<open>
  What the exchange does with a request: it answers with a status line and a payload, or
  the request fails below HTTP (\<open>code\<close>, whether a request object exists, message).
\<close>

datatype 'd outcome = HttpReply reply 'd | NetFail "string option" bool string

text \<open>
  The exchange is a parameter: the outcome of a request, and the milliseconds it takes,
  given how many requests went out before it.
\<close>

type_synonym 'd server = "nat \<Rightarrow> request \<Rightarrow> 'd outcome \<times> int"

datatype 'd axios_result = Resolved reply 'd | Rejected axios_error

definition settle :: "(nat \<Rightarrow> bool) \<Rightarrow> 'd outcome \<Rightarrow> 'd axios_result" where
  \<comment> \<open>axios resolves a response whose status passes \<^verbatim>\<open>validateStatus\<close> and rejects any other
      with an error that carries the response\<close>
  "settle validateStatus out =
     (case out of
        HttpReply r d \<Rightarrow>
          if validateStatus (status r) then Resolved r d
          else Rejected \<lparr>err_response = Some r,
                 err_code = Some (if status r div 100 = 4 then ''ERR_BAD_REQUEST'' else ''ERR_BAD_RESPONSE''),
                 err_request = True,
                 err_message = ''Request failed with status code '' @ showNat (status r)\<rparr>
      | NetFail c rq m \<Rightarrow>
          Rejected \<lparr>err_response = None, err_code = c, err_request = rq, err_message = m\<rparr>)"

definition defaultValidateStatus :: "nat \<Rightarrow> bool" where
  \<comment> \<open>the default of axios, in force for \<^verbatim>\<open>axios.get(url)\<close>\<close>
  "defaultValidateStatus s = (200 \<le> s \<and> s < 300)"

subsection \<open>State\<close>

record cache_entry =
  data :: "PriceData list"
  timestamp :: int

record state =
  apiKey :: string
  apiSecret :: string
  priceCache :: "string \<rightharpoonup> cache_entry"
  now :: int  \<comment> \<open>the reading of \<^verbatim>\<open>Date.now()\<close>\<close>
  sent :: "request list"  \<comment> \<open>every request handed to axios, oldest first\<close>
  arrays :: "nat \<Rightarrow> string list"  \<comment> \<open>the string arrays on the heap, by reference\<close>
  nextRef :: nat  \<comment> \<open>the next unused reference\<close>

definition baseURL :: string where
  "baseURL = ''https://api.binance.com''"

definition priceCacheDuration :: int where
  "priceCacheDuration = 1000"

definition constructor :: "string option \<Rightarrow> string option \<Rightarrow> state \<Rightarrow> state" where
  \<comment> \<open>the two arguments are \<^verbatim>\<open>process.env.BINANCE_API_KEY\<close> and \<^verbatim>\<open>process.env.BINANCE_SECRET_KEY\<close>\<close>
  "constructor envKey envSecret st =
     st\<lparr>apiKey := (case envKey of None \<Rightarrow> [] | Some k \<Rightarrow> k),
        apiSecret := (case envSecret of None \<Rightarrow> [] | Some k \<Rightarrow> k),
        priceCache := Map.empty\<rparr>"

definition axios :: "(nat \<Rightarrow> bool) \<Rightarrow> 'd server \<Rightarrow> request \<Rightarrow> state \<Rightarrow> 'd axios_result \<times> state" where
  "axios validateStatus srv config st =
     (case srv (length (sent st)) config of
        (out, elapsed) \<Rightarrow>
          (settle validateStatus out, st\<lparr>now := now st + elapsed, sent := sent st @ [config]\<rparr>))"

definition get_config :: "string \<Rightarrow> request" where
  \<comment> \<open>the configuration of \<^verbatim>\<open>axios.get(url)\<close>\<close>
  "get_config u =
     \<lparr>req_method = ''GET'', req_url = u, req_headers = [], req_data = None, req_timeout = None\<rparr>"

definition axios_get :: "'d server \<Rightarrow> string \<Rightarrow> state \<Rightarrow> 'd axios_result \<times> state" where
  "axios_get srv u st = axios defaultValidateStatus srv (get_config u) st"

definition sleep :: "nat \<Rightarrow> state \<Rightarrow> state" where
  \<comment> \<open>\<^verbatim>\<open>await new Promise(resolve => setTimeout(resolve, ms))\<close>\<close>
  "sleep ms st = st\<lparr>now := now st + int ms\<rparr>"

subsection \<open>Signed requests\<close>

definition createSignature :: "(string \<Rightarrow> string \<Rightarrow> string) \<Rightarrow> state \<Rightarrow> string \<Rightarrow> string" where
  \<comment> \<open>the first argument is
      \<^verbatim>\<open>(key, text) => crypto.createHmac('sha256', key).update(text).digest('hex')\<close>\<close>
  "createSignature hmac st queryString =
     (if apiSecret st = [] \<or> queryString = [] then [] else hmac (apiSecret st) queryString)"

definition buildQuery :: "(string \<Rightarrow> string \<Rightarrow> string) \<Rightarrow> state \<Rightarrow> (string \<times> string) list \<Rightarrow> string" where
  \<comment> \<open>\<^verbatim>\<open>fullQueryWithSignature\<close>; \<open>queryParams\<close> is the sequence \<^verbatim>\<open>Object.entries\<close> yields
      (the order of insertion, for keys that are not array indices), each value as the
      template literal renders it\<close>
  "buildQuery hmac st queryParams =
     (let queryString =
            (if length queryParams > 0
             then join ''&'' (map (\<lambda>(key, val). key @ ''='' @ val) queryParams)
             else []);
          timestamp = now st;
          finalQueryString =
            (if queryString \<noteq> [] then queryString @ ''&timestamp='' @ showInt timestamp
             else ''timestamp='' @ showInt timestamp);
          signature = createSignature hmac st finalQueryString
      in finalQueryString @ ''&signature='' @ signature)"

definition buildConfig ::
  "(string \<Rightarrow> string \<Rightarrow> string) \<Rightarrow> state \<Rightarrow> string \<Rightarrow> (string \<times> string) list \<Rightarrow> string \<Rightarrow> request" where
  "buildConfig hmac st endpoint queryParams httpMethod =
     (let fullQueryWithSignature = buildQuery hmac st queryParams;
          headers = [(''X-MBX-APIKEY'', apiKey st),
                     (''Content-Type'', ''application/x-www-form-urlencoded'')]
      in if httpMethod = ''GET''
         then \<lparr>req_method = httpMethod,
               req_url = baseURL @ endpoint @ ''?'' @ fullQueryWithSignature,
               req_headers = headers, req_data = None, req_timeout = Some 30000\<rparr>
         else \<lparr>req_method = httpMethod,
               req_url = baseURL @ endpoint,
               req_headers = headers, req_data = Some fullQueryWithSignature,
               req_timeout = Some 30000\<rparr>)"

definition msgOr :: "reply \<Rightarrow> string" where
  \<comment> \<open>\<^verbatim>\<open>response.data.msg || response.statusText\<close>\<close>
  "msgOr r = (case data_msg r of None \<Rightarrow> statusText r | Some m \<Rightarrow> if m = [] then statusText r else m)"

datatype 'd step = Continue state | Return "'d option" state | Throw error state

definition tryAttempt :: "'d server \<Rightarrow> request \<Rightarrow> nat \<Rightarrow> state \<Rightarrow> 'd step" where
  \<comment> \<open>the \<^verbatim>\<open>try\<close> block of one attempt\<close>
  "tryAttempt srv config attempt st =
     (case axios (\<lambda>s. s < 500) srv config st of
        (Rejected e, st1) \<Rightarrow> Throw (AxiosError e) st1
      | (Resolved response d, st1) \<Rightarrow>
          if status response \<ge> 400 then
            (if status response = 429 then Continue (sleep (attempt * 2000) st1)
             else Throw (Error (''API Error '' @ showNat (status response) @ '': '' @ msgOr response)) st1)
          else Return (Some d) st1)"

definition catchAttempt :: "nat \<Rightarrow> nat \<Rightarrow> error \<Rightarrow> state \<Rightarrow> 'd step" where
  \<comment> \<open>the \<^verbatim>\<open>catch\<close> block of one attempt\<close>
  "catchAttempt retries attempt err st =
     (case response_of err of
        Some r \<Rightarrow>
          if status r = 429 \<and> attempt < retries then Continue (sleep (attempt * 2000) st)
          else Throw (Error (''API Error: '' @ msgOr r)) st
      | None \<Rightarrow>
          if code_of err = Some ''ECONNREFUSED'' \<or> code_of err = Some ''ETIMEDOUT''
             \<or> code_of err = Some ''ENOTFOUND'' then
            (if attempt < retries then Continue (sleep (attempt * 2000) st)
             else Throw (Error (''Network Error: '' @ message_of err)) st)
          else if request_of err then
            (if attempt < retries then Continue (sleep (attempt * 3000) st)
             else Throw (Error (''Network Error: No response from server after ''
                                 @ showNat retries @ '' attempts'')) st)
          else Throw err st)"

definition attemptBody :: "'d server \<Rightarrow> request \<Rightarrow> nat \<Rightarrow> nat \<Rightarrow> state \<Rightarrow> 'd step" where
  "attemptBody srv config retries attempt st =
     (case tryAttempt srv config attempt st of
        Throw err st1 \<Rightarrow> catchAttempt retries attempt err st1
      | other \<Rightarrow> other)"

function attempts :: "'d server \<Rightarrow> request \<Rightarrow> nat \<Rightarrow> nat \<Rightarrow> state \<Rightarrow> (error + 'd option) \<times> state" where
  \<comment> \<open>the \<^verbatim>\<open>for\<close> loop from \<open>attempt\<close> on; leaving the loop returns \<^verbatim>\<open>undefined\<close>\<close>
  "attempts srv config retries attempt st =
     (if attempt \<le> retries then
        (case attemptBody srv config retries attempt st of
           Continue st1 \<Rightarrow> attempts srv config retries (attempt + 1) st1
         | Return d st1 \<Rightarrow> (Inr d, st1)
         | Throw err st1 \<Rightarrow> (Inl err, st1))
      else (Inr None, st))"
  by pat_completeness auto
termination
  by (relation "measure (\<lambda>(srv, config, retries, attempt, st). Suc retries - attempt)") auto

declare attempts.simps [simp del]

definition makeRequest ::
  "(string \<Rightarrow> string \<Rightarrow> string) \<Rightarrow> 'd server \<Rightarrow> state \<Rightarrow> string \<Rightarrow> (string \<times> string) list
     \<Rightarrow> string \<Rightarrow> nat \<Rightarrow> (error + 'd option) \<times> state" where
  "makeRequest hmac srv st endpoint queryParams httpMethod retries =
     (if apiKey st = [] \<or> apiSecret st = [] then
        (Inl (Error ''Missing BINANCE_API_KEY or BINANCE_SECRET_KEY environment variables''), st)
      else attempts srv (buildConfig hmac st endpoint queryParams httpMethod) retries 1 st)"

definition getAccountInfo ::
  "(string \<Rightarrow> string \<Rightarrow> string) \<Rightarrow> AccountInfo server \<Rightarrow> state \<Rightarrow> (error + AccountInfo option) \<times> state" where
  "getAccountInfo hmac srv st = makeRequest hmac srv st ''/api/v3/account'' [] ''GET'' 3"

subsection \<open>Prices\<close>

definition fresh :: "state \<Rightarrow> cache_entry option \<Rightarrow> bool" where
  \<comment> \<open>\<^verbatim>\<open>cached && (Date.now() - cached.timestamp) < this.priceCacheDuration\<close>\<close>
  "fresh st cached =
     (case cached of None \<Rightarrow> False | Some c \<Rightarrow> now st - timestamp c < priceCacheDuration)"

definition allPricesURL :: string where
  "allPricesURL = baseURL @ ''/api/v3/ticker/price''"

definition symbolPriceURL :: "string \<Rightarrow> string" where
  "symbolPriceURL symb = baseURL @ ''/api/v3/ticker/price?symbol='' @ symb"

definition getAllPrices :: "PriceData list server \<Rightarrow> state \<Rightarrow> (error + PriceData list) \<times> state" where
  "getAllPrices srvAll st =
     (let cacheKey = ''allPrices''; cached = priceCache st cacheKey
      in if fresh st cached then (Inr (data (the cached)), st)
         else (case axios_get srvAll allPricesURL st of
                 (Resolved response prices, st1) \<Rightarrow>
                   (Inr prices,
                    st1\<lparr>priceCache := (priceCache st1)(cacheKey \<mapsto> \<lparr>data = prices, timestamp = now st1\<rparr>)\<rparr>)
               | (Rejected e, st1) \<Rightarrow> (Inl (AxiosError e), st1)))"

fun fetchEach :: "PriceData server \<Rightarrow> string list \<Rightarrow> PriceData list \<Rightarrow> state \<Rightarrow> PriceData list \<times> state" where
  \<comment> \<open>the \<^verbatim>\<open>for (const symbol of symbols)\<close> loop; a rejected lookup is only logged\<close>
  "fetchEach srvOne [] prices st = (prices, st)"
| "fetchEach srvOne (symb # symbs) prices st =
     (case axios_get srvOne (symbolPriceURL symb) st of
        (Resolved response d, st1) \<Rightarrow> fetchEach srvOne symbs (prices @ [d]) st1
      | (Rejected e, st1) \<Rightarrow> fetchEach srvOne symbs prices st1)"

definition getSymbolPrices ::
  "PriceData server \<Rightarrow> PriceData list server \<Rightarrow> state \<Rightarrow> nat \<Rightarrow> (error + PriceData list) \<times> state" where
  \<comment> \<open>\<open>symbols\<close> is a reference: the array is \<open>arrays st symbols\<close>, and \<^verbatim>\<open>symbols.sort()\<close>
      sorts that array where it is, comparing strings character by character by code\<close>
  "getSymbolPrices srvOne srvAll st symbols =
     (if length (arrays st symbols) = 0 then (Inr [], st)
      else
        let st0 = st\<lparr>arrays := (arrays st)(symbols := sort (arrays st symbols))\<rparr>;
            cacheKey = join '','' (arrays st0 symbols);
            cached = priceCache st0 cacheKey
        in if fresh st0 cached then (Inr (data (the cached)), st0)
           else (case fetchEach srvOne (arrays st0 symbols) [] st0 of
                   (prices, st1) \<Rightarrow>
                     if length prices > 0 then
                       (Inr prices,
                        st1\<lparr>priceCache := (priceCache st1)(cacheKey \<mapsto> \<lparr>data = prices, timestamp = now st1\<rparr>)\<rparr>)
                     else getAllPrices srvAll st1))"

subsection \<open>Valuation\<close>

definition spot :: string where
  \<comment> \<open>the label of the \<^verbatim>\<open>type\<close> field, in UTF-8\<close>
  "spot = [CHR 0xE7, CHR 0x8E, CHR 0xB0, CHR 0xE8, CHR 0xB4, CHR 0xA7]"

definition priceMapOf :: "(string \<Rightarrow> jsnum) \<Rightarrow> PriceData list \<Rightarrow> (string \<rightharpoonup> jsnum)" where
  "priceMapOf parseFloat prices =
     fold (\<lambda>p priceMap. priceMap(symbol p \<mapsto> parseFloat (price p))) prices Map.empty"

definition resolve :: "(string \<rightharpoonup> jsnum) \<Rightarrow> string \<Rightarrow> jsnum \<Rightarrow> jsnum \<times> jsnum option" where
  \<comment> \<open>\<open>(usdtValue, currentPrice)\<close> of one held asset\<close>
  "resolve priceMap a tot =
     (if a = ''USDT'' then (tot, Some (Fin 1))
      else
        let usdtPair = a @ ''USDT''; btcPair = a @ ''BTC''
        in if priceMap usdtPair \<noteq> None then
             (let cp = the (priceMap usdtPair) in (jmul tot cp, Some cp))
           else if priceMap btcPair \<noteq> None \<and> priceMap ''BTCUSDT'' \<noteq> None then
             (let btcPrice = the (priceMap btcPair);
                  btcUsdtPrice = the (priceMap ''BTCUSDT'');
                  cp = jmul btcPrice btcUsdtPrice
              in (jmul tot cp, Some cp))
           else (Fin 0, None))"

definition valueBalance ::
  "(string \<Rightarrow> jsnum) \<Rightarrow> (string \<rightharpoonup> jsnum) \<Rightarrow> AssetBalance \<Rightarrow> jsnum \<times> ParsedAsset list
     \<Rightarrow> jsnum \<times> ParsedAsset list" where
  \<comment> \<open>one round of the loop over the balances, on \<open>(totalUSDT, assets)\<close>\<close>
  "valueBalance parseFloat priceMap balance acc =
     (let fr = jor (parseFloat (free balance)) (Fin 0);
          lk = jor (parseFloat (locked balance)) (Fin 0);
          tot = jadd fr lk
      in if jgt tot (Fin 0) then
           (case resolve priceMap (asset balance) tot of
              (value, cp) \<Rightarrow>
                if jgt value (Fin 0.01) then
                  (jadd (fst acc) value,
                   snd acc @ [\<lparr>pa_asset = asset balance, pa_free = fr, pa_locked = lk,
                                pa_total = tot, usdtValue = value, pa_type = spot,
                                currentPrice = cp\<rparr>])
                else acc)
         else acc)"

fun insertBy :: "('a \<Rightarrow> 'a \<Rightarrow> jsnum) \<Rightarrow> 'a \<Rightarrow> 'a list \<Rightarrow> 'a list" where
  "insertBy cmp x [] = [x]"
| "insertBy cmp x (y # ys) =
     (if jgt (cmp x y) (Fin 0) then y # insertBy cmp x ys else x # y # ys)"

definition sortBy :: "('a \<Rightarrow> 'a \<Rightarrow> jsnum) \<Rightarrow> 'a list \<Rightarrow> 'a list" where
  \<comment> \<open>\<^verbatim>\<open>Array.prototype.sort(cmp)\<close>, which is stable: an element moves behind another
      only when \<open>cmp\<close> says it is greater\<close>
  "sortBy cmp xs = foldr (insertBy cmp) xs []"

definition valuate :: "(string \<Rightarrow> jsnum) \<Rightarrow> int \<Rightarrow> AccountInfo \<Rightarrow> PriceData list \<Rightarrow> PortfolioData" where
  \<comment> \<open>\<^verbatim>\<open>calculateTotalAssets\<close> from the price map on; the second argument is the clock\<close>
  "valuate parseFloat clock accountInfo prices =
     (let priceMap = priceMapOf parseFloat prices;
          acc = fold (valueBalance parseFloat priceMap) (balances accountInfo) (Fin 0, []);
          sortedAssets = sortBy (\<lambda>a b. jsub (usdtValue b) (usdtValue a)) (snd acc)
      in \<lparr>totalUSDT = fst acc, assets = sortedAssets, lastUpdated = clock\<rparr>)"

record env =
  hmacSha256 :: "string \<Rightarrow> string \<Rightarrow> string"
  parseFloat :: "string \<Rightarrow> jsnum"
  accountServer :: "AccountInfo server"
  tickerServer :: "PriceData list server"
  symbolServer :: "PriceData server"

definition alloc :: "string list \<Rightarrow> state \<Rightarrow> nat \<times> state" where
  \<comment> \<open>a new array on the heap\<close>
  "alloc xs st = (nextRef st, st\<lparr>arrays := (arrays st)(nextRef st := xs), nextRef := Suc (nextRef st)\<rparr>)"

definition heldAssetsOf :: "(string \<Rightarrow> jsnum) \<Rightarrow> AccountInfo \<Rightarrow> string list" where
  "heldAssetsOf pf accountInfo =
     map asset
       (filter (\<lambda>balance. jgt (jadd (jor (pf (free balance)) (Fin 0)) (jor (pf (locked balance)) (Fin 0))) (Fin 0))
          (balances accountInfo))"

definition calculateTotalAssets :: "env \<Rightarrow> state \<Rightarrow> (error + PortfolioData) \<times> state" where
  "calculateTotalAssets e st =
     (case getAccountInfo (hmacSha256 e) (accountServer e) st of
        (Inl err, st1) \<Rightarrow> (Inl err, st1)
      | (Inr None, st1) \<Rightarrow>
          (Inl (TypeError ''Cannot read properties of undefined (reading 'balances')''), st1)
      | (Inr (Some accountInfo), st1) \<Rightarrow>
          let heldAssets = heldAssetsOf (parseFloat e) accountInfo;
              fetched =
                (if length heldAssets > 0 \<and> length heldAssets < 50 then
                   (case alloc (filter (\<lambda>symb. symb \<noteq> ''USDTUSDT'')
                                  (map (\<lambda>a. if a = ''USDT'' then ''USDTUSDT'' else a @ ''USDT'') heldAssets)) st1 of
                      (symbols, st2) \<Rightarrow> getSymbolPrices (symbolServer e) (tickerServer e) st2 symbols)
                 else getAllPrices (tickerServer e) st1)
          in (case fetched of
                (Inl err, st3) \<Rightarrow> (Inl err, st3)
              | (Inr prices, st3) \<Rightarrow> (Inr (valuate (parseFloat e) (now st3) accountInfo prices), st3)))"

section \<open>Notions used in the proofs\<close>

definition realOf :: "jsnum \<Rightarrow> real" where
  \<comment> \<open>the real a number holds\<close>
  "realOf x = (case x of NaN \<Rightarrow> 0 | Fin r \<Rightarrow> r)"

definition toTotal :: "(string \<Rightarrow> jsnum) \<Rightarrow> AssetBalance \<Rightarrow> jsnum" where
  \<comment> \<open>\<^verbatim>\<open>total\<close> of a balance\<close>
  "toTotal pf b = jadd (jor (pf (free b)) (Fin 0)) (jor (pf (locked b)) (Fin 0))"

definition parsed :: "(string \<Rightarrow> jsnum) \<Rightarrow> (string \<rightharpoonup> jsnum) \<Rightarrow> AssetBalance \<Rightarrow> ParsedAsset list" where
  \<comment> \<open>what one round of the loop pushes\<close>
  "parsed pf pm b = snd (valueBalance pf pm b (Fin 0, []))"


section \<open>Concrete inputs\<close>

text \<open>Small services, exchanges and accounts on which the theorems below are evaluated.\<close>

definition r429 :: reply where
  "r429 = \<lparr>status = 429, statusText = ''Too Many Requests'', data_msg = None\<rparr>"

definition r200 :: reply where
  "r200 = \<lparr>status = 200, statusText = ''OK'', data_msg = None\<rparr>"

definition st0 :: state where
  "st0 = \<lparr>apiKey = ''key'', apiSecret = ''secret'', priceCache = Map.empty, now = 1000,
          sent = [], arrays = (\<lambda>_. []), nextRef = 0\<rparr>"

definition hmac0 :: "string \<Rightarrow> string \<Rightarrow> string" where
  \<comment> \<open>a stand-in that shows its inputs\<close>
  "hmac0 k text = ''hmac('' @ k @ '','' @ text @ '')''"

definition acct0 :: AccountInfo where
  "acct0 = \<lparr>balances = []\<rparr>"

definition srv_429_then_200 :: "AccountInfo server" where
  "srv_429_then_200 k req = (if k = 0 then (HttpReply r429 acct0, 5) else (HttpReply r200 acct0, 5))"

definition srv_200 :: "AccountInfo server" where
  "srv_200 k req = (HttpReply r200 acct0, 5)"

definition env0 :: env where
  "env0 = \<lparr>hmacSha256 = hmac0, parseFloat = (\<lambda>s. NaN), accountServer = srv_200,
           tickerServer = (\<lambda>k req. (NetFail None True ''no'', 0)),
           symbolServer = (\<lambda>k req. (NetFail None True ''no'', 0))\<rparr>"

definition r400 :: reply where
  "r400 = \<lparr>status = 400, statusText = ''Bad Request'', data_msg = Some ''Invalid symbol.''\<rparr>"

definition btcQuote :: PriceData where
  "btcQuote = \<lparr>symbol = ''BTCUSDT'', price = ''50000''\<rparr>"

definition ethQuote :: PriceData where
  "ethQuote = \<lparr>symbol = ''ETHUSDT'', price = ''3000''\<rparr>"

definition srvOnlyBTC :: "PriceData server" where
  \<comment> \<open>knows BTCUSDT and rejects every other symbol\<close>
  "srvOnlyBTC k req =
     (if req_url req = symbolPriceURL ''BTCUSDT'' then (HttpReply r200 btcQuote, 7)
      else (HttpReply r400 \<lparr>symbol = [], price = []\<rparr>, 3))"

definition srvNoSymbol :: "PriceData server" where
  "srvNoSymbol k req = (HttpReply r400 \<lparr>symbol = [], price = []\<rparr>, 3)"

definition srvTicker :: "PriceData list server" where
  "srvTicker k req = (HttpReply r200 [btcQuote, ethQuote], 11)"

definition stSyms :: state where
  \<comment> \<open>the caller's array, at reference 0, is \<^verbatim>\<open>['ETHUSDT', 'BTCUSDT']\<close>\<close>
  "stSyms = st0\<lparr>arrays := (\<lambda>r. if r = 0 then [''ETHUSDT'', ''BTCUSDT''] else []), nextRef := 1\<rparr>"


definition pf0 :: "string \<Rightarrow> jsnum" where
  \<comment> \<open>\<^verbatim>\<open>parseFloat\<close> on the strings used below\<close>
  "pf0 s =
     (if s = ''0'' then Fin 0 else if s = ''1'' then Fin 1 else if s = ''2'' then Fin 2
      else if s = ''100'' then Fin 100 else if s = ''50000'' then Fin 50000
      else if s = ''0.01'' then Fin 0.01 else if s = ''0.005'' then Fin 0.005
      else NaN)"




definition acctMixed :: AccountInfo where
  "acctMixed = \<lparr>balances = [\<lparr>asset = ''USDT'', free = ''100'', locked = ''0''\<rparr>,
                             \<lparr>asset = ''BTC'', free = ''1'', locked = ''0''\<rparr>,
                             \<lparr>asset = ''XYZ'', free = ''2'', locked = ''0''\<rparr>,
                             \<lparr>asset = ''ABC'', free = ''1'', locked = ''0''\<rparr>]\<rparr>"

definition pricesBridge :: "PriceData list" where
  "pricesBridge = [\<lparr>symbol = ''BTCUSDT'', price = ''50000''\<rparr>, \<lparr>symbol = ''XYZBTC'', price = ''0.01''\<rparr>]"

definition acctDust :: AccountInfo where
  "acctDust = \<lparr>balances = [\<lparr>asset = ''DUST'', free = ''0.005'', locked = ''0''\<rparr>,
                            \<lparr>asset = ''BTC'', free = ''1'', locked = ''0''\<rparr>,
                            \<lparr>asset = ''ABC'', free = ''1'', locked = ''0''\<rparr>]\<rparr>"

definition pricesDust :: "PriceData list" where
  "pricesDust = [\<lparr>symbol = ''BTCUSDT'', price = ''50000''\<rparr>, \<lparr>symbol = ''DUSTUSDT'', price = ''1''\<rparr>]"

lemmas price_defs = getSymbolPrices_def getAllPrices_def fresh_def priceCacheDuration_def
  axios_get_def axios_def settle_def defaultValidateStatus_def get_config_def
  symbolPriceURL_def allPricesURL_def baseURL_def Let_def less_char_def less_eq_char_def

lemmas eval_defs = makeRequest_def attempts.simps attemptBody_def tryAttempt_def catchAttempt_def
  axios_def settle_def sleep_def buildConfig_def buildQuery_def createSignature_def Let_def
  baseURL_def showInt_def showNat.simps digit_def msgOr_def

lemmas valuation_defs = calculateTotalAssets_def getAccountInfo_def heldAssetsOf_def alloc_def
  valuate_def priceMapOf_def valueBalance_def resolve_def sortBy_def jor_def

section \<open>Signed requests and retries\<close>

subsection \<open>The attempt loop\<close>

lemma attempts_done:
  "\<not> attempt \<le> retries \<Longrightarrow> attempts srv config retries attempt st = (Inr None, st)"
  by (subst attempts.simps) simp

lemma attemptBody_429:
  "status r = 429 \<Longrightarrow>
   attemptBody (\<lambda>k req. (HttpReply r d, dt)) config retries attempt st =
     Continue (sleep (attempt * 2000) (st\<lparr>now := now st + dt, sent := sent st @ [config]\<rparr>))"
  by (simp add: attemptBody_def tryAttempt_def axios_def settle_def)

lemma attempts_429_step:
  "status r = 429 \<Longrightarrow> attempt \<le> retries \<Longrightarrow>
   attempts (\<lambda>k req. (HttpReply r d, dt)) config retries attempt st =
   attempts (\<lambda>k req. (HttpReply r d, dt)) config retries (attempt + 1)
     (sleep (attempt * 2000) (st\<lparr>now := now st + dt, sent := sent st @ [config]\<rparr>))"
  by (subst attempts.simps) (simp add: attemptBody_429)

lemma attempts_429:
  "status r = 429 \<Longrightarrow>
   fst (attempts (\<lambda>k req. (HttpReply r d, dt)) config retries attempt st) = Inr None \<and>
   sent (snd (attempts (\<lambda>k req. (HttpReply r d, dt)) config retries attempt st)) =
     sent st @ replicate (Suc retries - attempt) config"
proof (induction "Suc retries - attempt" arbitrary: attempt st)
  case 0
  then have "\<not> attempt \<le> retries" by simp
  then show ?case using 0 by (simp add: attempts_done)
next
  case (Suc n)
  then have le: "attempt \<le> retries" by simp
  have n: "n = Suc retries - (attempt + 1)" using Suc.hyps(2) by simp
  have sr: "Suc retries - attempt = Suc (Suc retries - (attempt + 1))" using le by simp
  show ?case
    using Suc.hyps(1)[OF n Suc.prems]
    by (simp only: attempts_429_step[OF Suc.prems le] sr)
       (simp add: sleep_def replicate_app_Cons_same)
qed

text \<open>
  Claim C1. With three attempts allowed and an exchange that answers every request with
  status 429, \<open>makeRequest\<close> sends exactly three requests and terminates. The claim has it
  end in a rate-limit error. It does not: a 429 passes \<^verbatim>\<open>validateStatus\<close>, so it is handled
  in the \<^verbatim>\<open>try\<close> block, whose \<^verbatim>\<open>continue\<close> is not guarded by \<^verbatim>\<open>attempt < retries\<close> as the
  one in the \<^verbatim>\<open>catch\<close> block is; after the third wait the loop ends and the call resolves
  with \<^verbatim>\<open>undefined\<close>.
\<close>

theorem makeRequest_rate_limited_resolves_undefined:
  assumes "apiKey st \<noteq> []" and "apiSecret st \<noteq> []" and "status r = 429"
  shows "fst (makeRequest hmac (\<lambda>k req. (HttpReply r d, dt)) st endpoint queryParams httpMethod 3) = Inr None \<and>
         sent (snd (makeRequest hmac (\<lambda>k req. (HttpReply r d, dt)) st endpoint queryParams httpMethod 3)) =
           sent st @ replicate 3 (buildConfig hmac st endpoint queryParams httpMethod)"
  using assms(1,2) attempts_429[OF assms(3), of d dt _ 3 1 st]
  by (simp add: makeRequest_def)

theorem makeRequest_rate_limited_resolves_undefined_witness:
  "apiKey st0 \<noteq> [] \<and> apiSecret st0 \<noteq> [] \<and> status r429 = 429 \<and>
   fst (makeRequest hmac0 (\<lambda>k req. (HttpReply r429 \<lparr>balances = []\<rparr>, 5)) st0 ''/api/v3/account'' [] ''GET'' 3) = Inr None \<and>
   length (sent (snd (makeRequest hmac0 (\<lambda>k req. (HttpReply r429 \<lparr>balances = []\<rparr>, 5)) st0 ''/api/v3/account'' [] ''GET'' 3))) = 3"
  using makeRequest_rate_limited_resolves_undefined[of st0 r429 hmac0 "\<lparr>balances = []\<rparr>" 5 "''/api/v3/account''" "[]" "''GET''"]
  by (simp add: st0_def r429_def)

subsection \<open>One configuration for every attempt\<close>

lemma attemptBody_sent:
  "attemptBody srv config retries attempt st = Continue st1 \<Longrightarrow> sent st1 = sent st @ [config]"
  "attemptBody srv config retries attempt st = Return d st1 \<Longrightarrow> sent st1 = sent st @ [config]"
  "attemptBody srv config retries attempt st = Throw err st1 \<Longrightarrow> sent st1 = sent st @ [config]"
  by (auto simp: attemptBody_def tryAttempt_def catchAttempt_def axios_def sleep_def
           split: prod.splits axios_result.splits if_splits step.splits option.splits)

lemma attempts_replay:
  "\<exists>n. n \<le> Suc retries - attempt \<and>
       sent (snd (attempts srv config retries attempt st)) = sent st @ replicate n config"
proof (induction srv config retries attempt st rule: attempts.induct)
  case (1 srv config retries attempt st)
  show ?case
  proof (cases "attempt \<le> retries")
    case False
    then show ?thesis by (simp add: attempts_done)
  next
    case True
    show ?thesis
    proof (cases "attemptBody srv config retries attempt st")
      case (Continue st1)
      from 1[OF True Continue] obtain n where
        n: "n \<le> Suc retries - (attempt + 1)"
           "sent (snd (attempts srv config retries (attempt + 1) st1)) = sent st1 @ replicate n config"
        by blast
      have "sent (snd (attempts srv config retries attempt st)) = sent st @ replicate (Suc n) config"
        using n(2) attemptBody_sent(1)[OF Continue] True Continue
        by (subst attempts.simps) (simp add: replicate_app_Cons_same)
      moreover have "Suc n \<le> Suc retries - attempt" using n(1) True by simp
      ultimately show ?thesis by blast
    next
      case (Return d st1)
      have "sent (snd (attempts srv config retries attempt st)) = sent st @ replicate 1 config"
        using attemptBody_sent(2)[OF Return] True Return by (subst attempts.simps) simp
      moreover have "1 \<le> Suc retries - attempt" using True by simp
      ultimately show ?thesis by blast
    next
      case (Throw err st1)
      have "sent (snd (attempts srv config retries attempt st)) = sent st @ replicate 1 config"
        using attemptBody_sent(3)[OF Throw] True Throw by (subst attempts.simps) simp
      moreover have "1 \<le> Suc retries - attempt" using True by simp
      ultimately show ?thesis by blast
    qed
  qed
qed

lemma makeRequest_replay:
  "\<exists>n. n \<le> retries \<and>
       sent (snd (makeRequest hmac srv st endpoint queryParams httpMethod retries)) =
         sent st @ replicate n (buildConfig hmac st endpoint queryParams httpMethod)"
proof (cases "apiKey st = [] \<or> apiSecret st = []")
  case True
  then have "sent (snd (makeRequest hmac srv st endpoint queryParams httpMethod retries)) =
         sent st @ replicate 0 (buildConfig hmac st endpoint queryParams httpMethod)"
    by (auto simp add: makeRequest_def)
  then show ?thesis by blast
next
  case False
  then show ?thesis
    using attempts_replay[of retries 1 srv "buildConfig hmac st endpoint queryParams httpMethod" st]
    by (auto simp add: makeRequest_def)
qed


text \<open>
  Claim C2, as stated: every retried attempt carries a timestamp read anew and a signature
  over it. It fails: the exchange answers 429 and then 200, the retry leaves at clock 3005,
  and both requests carry \<open>timestamp=1000\<close> and the signature over it.
\<close>

theorem retry_replays_timestamp_counterexample:
  "map req_url (sent (snd (makeRequest hmac0 srv_429_then_200 st0 ''/api/v3/account'' [] ''GET'' 3))) =
     [''https://api.binance.com/api/v3/account?timestamp=1000&signature=hmac(secret,timestamp=1000)'',
      ''https://api.binance.com/api/v3/account?timestamp=1000&signature=hmac(secret,timestamp=1000)''] \<and>
   now (snd (makeRequest hmac0 srv_429_then_200 st0 ''/api/v3/account'' [] ''GET'' 3)) = 3010 \<and>
   fst (makeRequest hmac0 srv_429_then_200 st0 ''/api/v3/account'' [] ''GET'' 3) = Inr (Some acct0)"
  by (simp add: eval_defs st0_def r429_def r200_def hmac0_def srv_429_then_200_def)

text \<open>
  Claim C2, amended: the timestamp is read and the signature derived once, before the first
  attempt, and every attempt of the call, retries included, sends that one request again.
\<close>

theorem every_attempt_sends_the_same_request:
  "\<exists>n. n \<le> retries \<and>
       sent (snd (makeRequest hmac srv st endpoint queryParams httpMethod retries)) =
         sent st @ replicate n (buildConfig hmac st endpoint queryParams httpMethod)"
  by (rule makeRequest_replay)

theorem every_attempt_sends_the_same_request_witness:
  "sent (snd (makeRequest hmac0 srv_429_then_200 st0 ''/api/v3/account'' [] ''GET'' 3)) =
     sent st0 @ replicate 2 (buildConfig hmac0 st0 ''/api/v3/account'' [] ''GET'') \<and>
   req_url (buildConfig hmac0 st0 ''/api/v3/account'' [] ''GET'') =
     ''https://api.binance.com/api/v3/account?timestamp=1000&signature=hmac(secret,timestamp=1000)''"
proof -
  obtain n where n: "n \<le> 3"
    "sent (snd (makeRequest hmac0 srv_429_then_200 st0 ''/api/v3/account'' [] ''GET'' 3)) =
       sent st0 @ replicate n (buildConfig hmac0 st0 ''/api/v3/account'' [] ''GET'')"
    using every_attempt_sends_the_same_request[of 3 hmac0 srv_429_then_200 st0 "''/api/v3/account''" "[]" "''GET''"]
    by blast
  have "length (sent (snd (makeRequest hmac0 srv_429_then_200 st0 ''/api/v3/account'' [] ''GET'' 3))) = 2"
    by (simp add: eval_defs st0_def r429_def r200_def srv_429_then_200_def)
  then have "n = 2" using n(2) by (simp add: st0_def)
  moreover have "req_url (buildConfig hmac0 st0 ''/api/v3/account'' [] ''GET'') =
     ''https://api.binance.com/api/v3/account?timestamp=1000&signature=hmac(secret,timestamp=1000)''"
    by (simp add: eval_defs st0_def hmac0_def)
  ultimately show ?thesis using n(2) by simp
qed

subsection \<open>What is signed\<close>

lemma join_pairs:
  "join ''&'' (map (\<lambda>(key, val). key @ ''='' @ val) ((k, v) # rest)) =
     k @ ''='' @ v @ concat (map (\<lambda>(k', v'). ''&'' @ k' @ ''='' @ v') rest)"
proof (induction rest arbitrary: k v)
  case Nil
  show ?case by simp
next
  case (Cons p rest)
  obtain a b where p: "p = (a, b)" by (cases p)
  show ?case using Cons[of a b] by (simp add: p)
qed

lemma buildQuery_nonempty:
  assumes "apiSecret st \<noteq> []"
  shows "buildQuery hmac st ((k, v) # rest) =
           (k @ ''='' @ v @ concat (map (\<lambda>(k', v'). ''&'' @ k' @ ''='' @ v') rest)
              @ ''&timestamp='' @ showInt (now st))
           @ ''&signature=''
           @ hmac (apiSecret st)
               (k @ ''='' @ v @ concat (map (\<lambda>(k', v'). ''&'' @ k' @ ''='' @ v') rest)
                  @ ''&timestamp='' @ showInt (now st))"
  unfolding buildQuery_def createSignature_def Let_def join_pairs
  using assms by simp

text \<open>
  Claim C3. For a non-empty parameter map the signed string is the \<open>key=value\<close> pairs
  joined by \<open>&\<close> in order, followed by \<open>&timestamp=\<close> and the timestamp; the signature is
  the HMAC of exactly that string under the API secret, and \<open>&signature=\<close> with it is
  appended afterwards, so the string that is signed ends before the signature field. Every
  request of the call carries the result: in the URL for GET, as the body otherwise.
\<close>

theorem signature_covers_parameters_and_timestamp:
  assumes "apiKey st \<noteq> []" and "apiSecret st \<noteq> []"
    and "signed = k @ ''='' @ v @ concat (map (\<lambda>(k', v'). ''&'' @ k' @ ''='' @ v') rest)
                    @ ''&timestamp='' @ showInt (now st)"
    and "full = signed @ ''&signature='' @ hmac (apiSecret st) signed"
  shows "buildQuery hmac st ((k, v) # rest) = full \<and>
         (\<forall>req \<in> set (drop (length (sent st))
                          (sent (snd (makeRequest hmac srv st endpoint ((k, v) # rest) httpMethod retries)))).
            if httpMethod = ''GET''
            then req_url req = baseURL @ endpoint @ ''?'' @ full \<and> req_data req = None
            else req_url req = baseURL @ endpoint \<and> req_data req = Some full)"
proof -
  have q: "buildQuery hmac st ((k, v) # rest) = full"
    using buildQuery_nonempty[OF assms(2)] assms(3,4) by simp
  obtain n where
    "sent (snd (makeRequest hmac srv st endpoint ((k, v) # rest) httpMethod retries)) =
       sent st @ replicate n (buildConfig hmac st endpoint ((k, v) # rest) httpMethod)"
    using makeRequest_replay by blast
  then show ?thesis
    using q by (auto simp add: buildConfig_def Let_def)
qed

theorem signature_covers_parameters_and_timestamp_witness:
  "apiKey st0 \<noteq> [] \<and> apiSecret st0 \<noteq> [] \<and>
   buildQuery hmac0 st0 [(''symbol'', ''BTCUSDT''), (''side'', ''BUY'')] =
     ''symbol=BTCUSDT&side=BUY&timestamp=1000&signature=hmac(secret,symbol=BTCUSDT&side=BUY&timestamp=1000)'' \<and>
   map req_url (drop (length (sent st0))
                  (sent (snd (makeRequest hmac0 srv_200 st0 ''/api/v3/order''
                                [(''symbol'', ''BTCUSDT''), (''side'', ''BUY'')] ''POST'' 3)))) =
     [''https://api.binance.com/api/v3/order''] \<and>
   map req_data (drop (length (sent st0))
                   (sent (snd (makeRequest hmac0 srv_200 st0 ''/api/v3/order''
                                 [(''symbol'', ''BTCUSDT''), (''side'', ''BUY'')] ''POST'' 3)))) =
     [Some ''symbol=BTCUSDT&side=BUY&timestamp=1000&signature=hmac(secret,symbol=BTCUSDT&side=BUY&timestamp=1000)'']"
  using signature_covers_parameters_and_timestamp[of st0
          "''symbol=BTCUSDT&side=BUY&timestamp=1000''" "''symbol''" "''BTCUSDT''" "[(''side'', ''BUY'')]"
          "''symbol=BTCUSDT&side=BUY&timestamp=1000&signature=hmac(secret,symbol=BTCUSDT&side=BUY&timestamp=1000)''"
          hmac0 srv_200 "''/api/v3/order''" "''POST''" 3]
  by (simp add: eval_defs st0_def r200_def hmac0_def srv_200_def)

text \<open>
  Claim C9. When the API key or the API secret is empty (the constructor stores the empty
  string for an unset variable), \<open>makeRequest\<close>, and with it \<open>getAccountInfo\<close> and
  \<open>calculateTotalAssets\<close>, fails with the configuration error and leaves the state as it
  was: no request is sent, no wait happens, nothing is retried.
\<close>

theorem missing_credentials_fail_before_any_request:
  "(apiKey st = [] \<or> apiSecret st = [] \<longrightarrow>
      makeRequest hmac srv st endpoint queryParams httpMethod retries =
        (Inl (Error ''Missing BINANCE_API_KEY or BINANCE_SECRET_KEY environment variables''), st) \<and>
      getAccountInfo hmac srvA st =
        (Inl (Error ''Missing BINANCE_API_KEY or BINANCE_SECRET_KEY environment variables''), st) \<and>
      calculateTotalAssets e st =
        (Inl (Error ''Missing BINANCE_API_KEY or BINANCE_SECRET_KEY environment variables''), st)) \<and>
   (envKey = None \<or> envSecret = None \<longrightarrow>
      apiKey (constructor envKey envSecret st) = [] \<or> apiSecret (constructor envKey envSecret st) = [])"
  by (auto simp add: makeRequest_def getAccountInfo_def calculateTotalAssets_def constructor_def)

theorem missing_credentials_fail_before_any_request_witness:
  "makeRequest hmac0 srv_200 (constructor (Some ''key'') None st0) ''/api/v3/account'' [] ''GET'' 3 =
     (Inl (Error ''Missing BINANCE_API_KEY or BINANCE_SECRET_KEY environment variables''),
      constructor (Some ''key'') None st0) \<and>
   calculateTotalAssets env0 (constructor (Some ''key'') None st0) =
     (Inl (Error ''Missing BINANCE_API_KEY or BINANCE_SECRET_KEY environment variables''),
      constructor (Some ''key'') None st0) \<and>
   sent (snd (calculateTotalAssets env0 (constructor (Some ''key'') None st0))) = []"
  using missing_credentials_fail_before_any_request[of "constructor (Some ''key'') None st0"
          hmac0 srv_200 "''/api/v3/account''" "[]" "''GET''" 3 srv_200 env0 "Some ''key''" None]
  by (simp add: constructor_def st0_def)

section \<open>Prices and their cache\<close>

lemma axios_get_eq:
  "axios_get srv u st =
     (settle defaultValidateStatus (fst (srv (length (sent st)) (get_config u))),
      st\<lparr>now := now st + snd (srv (length (sent st)) (get_config u)),
         sent := sent st @ [get_config u]\<rparr>)"
  by (simp add: axios_get_def axios_def split: prod.splits)

lemma fetchEach_eq:
  "fetchEach srvOne syms prices st =
     (prices @ List.map_filter
                 (\<lambda>(i, s). case fst (srvOne i (get_config (symbolPriceURL s))) of
                              HttpReply r d \<Rightarrow> if 200 \<le> status r \<and> status r < 300 then Some d else None
                            | NetFail c rq m \<Rightarrow> None)
                 (zip [length (sent st)..<length (sent st) + length syms] syms),
      st\<lparr>now := now st + sum_list (map (\<lambda>(i, s). snd (srvOne i (get_config (symbolPriceURL s))))
                                    (zip [length (sent st)..<length (sent st) + length syms] syms)),
         sent := sent st @ map (\<lambda>s. get_config (symbolPriceURL s)) syms\<rparr>)"
proof (induction syms arbitrary: prices st)
  case Nil
  show ?case by (simp add: List.map_filter_simps)
next
  case (Cons s syms)
  have u: "\<And>n k. [n..<Suc (n + k)] = n # [Suc n..<Suc (n + k)]"
    by (subst upt_rec) simp
  show ?case
  proof (cases "fst (srvOne (length (sent st)) (get_config (symbolPriceURL s)))")
    case (HttpReply r d)
    then show ?thesis
      by (cases "200 \<le> status r \<and> status r < 300")
         (simp_all add: u axios_get_eq Cons.IH List.map_filter_simps settle_def
            defaultValidateStatus_def del: upt_Suc)
  next
    case (NetFail c rq m)
    then show ?thesis
      by (simp add: u axios_get_eq Cons.IH List.map_filter_simps settle_def del: upt_Suc)
  qed
qed



lemma getAllPrices_miss:
  assumes "\<not> fresh st (priceCache st ''allPrices'')"
  shows "getAllPrices srvAll st =
     (case settle defaultValidateStatus (fst (srvAll (length (sent st)) (get_config allPricesURL))) of
        Resolved r ps \<Rightarrow>
          (Inr ps,
           st\<lparr>now := now st + snd (srvAll (length (sent st)) (get_config allPricesURL)),
              sent := sent st @ [get_config allPricesURL],
              priceCache := (priceCache st)(''allPrices'' \<mapsto>
                 \<lparr>data = ps, timestamp = now st + snd (srvAll (length (sent st)) (get_config allPricesURL))\<rparr>)\<rparr>)
      | Rejected e \<Rightarrow>
          (Inl (AxiosError e),
           st\<lparr>now := now st + snd (srvAll (length (sent st)) (get_config allPricesURL)),
              sent := sent st @ [get_config allPricesURL]\<rparr>))"
  using assms
  by (simp add: getAllPrices_def Let_def axios_get_eq split: axios_result.splits)

lemma getAllPrices_arrays: "arrays (snd (getAllPrices srvAll st)) = arrays st"
  by (cases "fresh st (priceCache st ''allPrices'')")
     (simp_all add: getAllPrices_miss, simp_all add: getAllPrices_def split: axios_result.splits)

lemma fresh_arrays [simp]: "fresh (st\<lparr>arrays := a\<rparr>) cached = fresh st cached"
  by (simp add: fresh_def split: option.splits)


lemma getSymbolPrices_miss:
  assumes "arrays st symbols \<noteq> []"
    and "\<not> fresh st (priceCache st (join '','' (sort (arrays st symbols))))"
  shows "getSymbolPrices srvOne srvAll st symbols =
     (case fetchEach srvOne (sort (arrays st symbols)) []
             (st\<lparr>arrays := (arrays st)(symbols := sort (arrays st symbols))\<rparr>) of
        (prices, st1) \<Rightarrow>
          if prices \<noteq> [] then
            (Inr prices,
             st1\<lparr>priceCache := (priceCache st1)(join '','' (sort (arrays st symbols)) \<mapsto>
                    \<lparr>data = prices, timestamp = now st1\<rparr>)\<rparr>)
          else getAllPrices srvAll st1)"
  using assms by (simp add: getSymbolPrices_def Let_def split: prod.splits)


text \<open>
  Claim C5. On a cache miss \<open>getSymbolPrices\<close> looks up every symbol of the (sorted) list,
  one request each, whatever the earlier lookups did; the quotes are the payloads of the
  lookups answered with a 2xx status, in order, and a lookup that fails contributes nothing.
  When there is at least one quote, exactly the quotes are returned and stored under the
  key of the list; when there is none, the result is that of \<open>getAllPrices\<close>, run after
  the lookups.
\<close>

theorem getSymbolPrices_skips_failures_and_falls_back:
  assumes "arrays st symbols \<noteq> []"
    and "\<not> fresh st (priceCache st (join '','' (sort (arrays st symbols))))"
    and "lookups = zip [length (sent st)..<length (sent st) + length (arrays st symbols)]
                       (sort (arrays st symbols))"
    and "quotes = List.map_filter
                    (\<lambda>(i, s). case fst (srvOne i (get_config (symbolPriceURL s))) of
                                 HttpReply r d \<Rightarrow> if 200 \<le> status r \<and> status r < 300 then Some d else None
                               | NetFail c rq m \<Rightarrow> None)
                    lookups"
    and "st1 = st\<lparr>arrays := (arrays st)(symbols := sort (arrays st symbols)),
                   now := now st + sum_list (map (\<lambda>(i, s). snd (srvOne i (get_config (symbolPriceURL s)))) lookups),
                   sent := sent st @ map (\<lambda>s. get_config (symbolPriceURL s)) (sort (arrays st symbols))\<rparr>"
  shows "(quotes \<noteq> [] \<longrightarrow>
            getSymbolPrices srvOne srvAll st symbols =
              (Inr quotes,
               st1\<lparr>priceCache := (priceCache st)(join '','' (sort (arrays st symbols)) \<mapsto>
                      \<lparr>data = quotes, timestamp = now st1\<rparr>)\<rparr>)) \<and>
         (quotes = [] \<longrightarrow>
            getSymbolPrices srvOne srvAll st symbols = getAllPrices srvAll st1)"
  using assms(3-5)
  by (simp add: getSymbolPrices_miss[OF assms(1,2)] fetchEach_eq)

theorem getSymbolPrices_skips_failures_and_falls_back_witness:
  "fst (getSymbolPrices srvOnlyBTC srvTicker stSyms 0) = Inr [btcQuote] \<and>
   priceCache (snd (getSymbolPrices srvOnlyBTC srvTicker stSyms 0)) ''BTCUSDT,ETHUSDT'' =
     Some \<lparr>data = [btcQuote], timestamp = 1010\<rparr> \<and>
   map req_url (sent (snd (getSymbolPrices srvOnlyBTC srvTicker stSyms 0))) =
     [symbolPriceURL ''BTCUSDT'', symbolPriceURL ''ETHUSDT''] \<and>
   fst (getSymbolPrices srvNoSymbol srvTicker stSyms 0) = Inr [btcQuote, ethQuote] \<and>
   map req_url (sent (snd (getSymbolPrices srvNoSymbol srvTicker stSyms 0))) =
     [symbolPriceURL ''BTCUSDT'', symbolPriceURL ''ETHUSDT'', allPricesURL]"
  using getSymbolPrices_skips_failures_and_falls_back[of stSyms 0 _ _ srvOnlyBTC _ srvTicker, OF _ _ refl refl refl]
        getSymbolPrices_skips_failures_and_falls_back[of stSyms 0 _ _ srvNoSymbol _ srvTicker, OF _ _ refl refl refl]
  by (simp add: price_defs stSyms_def st0_def srvOnlyBTC_def srvNoSymbol_def srvTicker_def
        r200_def r400_def)






lemma getSymbolPrices_arrays:
  assumes "arrays st symbols \<noteq> []"
  shows "arrays (snd (getSymbolPrices srvOne srvAll st symbols)) =
           (arrays st)(symbols := sort (arrays st symbols))"
proof (cases "fresh st (priceCache st (join '','' (sort (arrays st symbols))))")
  case True
  then show ?thesis using assms by (simp add: getSymbolPrices_def Let_def)
next
  case False
  show ?thesis
    by (simp add: getSymbolPrices_miss[OF assms False] fetchEach_eq getAllPrices_arrays)
qed

text \<open>
  Claim C10. Called with a non-empty array, \<open>getSymbolPrices\<close> leaves the caller's array
  sorted: afterwards it holds the same strings in ascending order, whatever else the call
  did (cache hit, lookups, fallback or error).
\<close>

theorem getSymbolPrices_sorts_the_callers_array:
  assumes "arrays st symbols \<noteq> []"
  shows "arrays (snd (getSymbolPrices srvOne srvAll st symbols)) symbols = sort (arrays st symbols) \<and>
         sorted (arrays (snd (getSymbolPrices srvOne srvAll st symbols)) symbols) \<and>
         mset (arrays (snd (getSymbolPrices srvOne srvAll st symbols)) symbols) = mset (arrays st symbols)"
  by (simp add: getSymbolPrices_arrays[OF assms])

theorem getSymbolPrices_sorts_the_callers_array_witness:
  "arrays stSyms 0 = [''ETHUSDT'', ''BTCUSDT''] \<and>
   arrays (snd (getSymbolPrices srvOnlyBTC srvTicker stSyms 0)) 0 = [''BTCUSDT'', ''ETHUSDT'']"
  using getSymbolPrices_sorts_the_callers_array[of stSyms 0 srvOnlyBTC srvTicker]
  by (simp add: stSyms_def st0_def less_char_def less_eq_char_def)

section \<open>Valuation\<close>

lemma jgt_Fin: "jgt x (Fin a) \<Longrightarrow> \<exists>v. x = Fin v \<and> v > a"
  by (cases x) simp_all

lemma parsed_eq:
  "parsed pf pm b =
     (if jgt (toTotal pf b) (Fin 0) \<and> jgt (fst (resolve pm (asset b) (toTotal pf b))) (Fin 0.01)
      then [\<lparr>pa_asset = asset b, pa_free = jor (pf (free b)) (Fin 0),
              pa_locked = jor (pf (locked b)) (Fin 0), pa_total = toTotal pf b,
              usdtValue = fst (resolve pm (asset b) (toTotal pf b)), pa_type = spot,
              currentPrice = snd (resolve pm (asset b) (toTotal pf b))\<rparr>]
      else [])"
  by (simp add: parsed_def valueBalance_def toTotal_def Let_def split: prod.splits)


lemma valueBalance_alt:
  "valueBalance pf pm b acc =
     (if jgt (toTotal pf b) (Fin 0) \<and> jgt (fst (resolve pm (asset b) (toTotal pf b))) (Fin 0.01)
      then (jadd (fst acc) (fst (resolve pm (asset b) (toTotal pf b))), snd acc @ parsed pf pm b)
      else acc)"
  by (simp add: parsed_eq) (simp add: valueBalance_def toTotal_def Let_def split: prod.splits)

lemma valueBalance_Fin:
  "valueBalance pf pm b (Fin s, xs) =
     (Fin (s + sum_list (map (realOf \<circ> usdtValue) (parsed pf pm b))), xs @ parsed pf pm b)"
proof (cases "jgt (toTotal pf b) (Fin 0) \<and> jgt (fst (resolve pm (asset b) (toTotal pf b))) (Fin 0.01)")
  case True
  then obtain v where v: "fst (resolve pm (asset b) (toTotal pf b)) = Fin v"
    using jgt_Fin by blast
  have "valueBalance pf pm b (Fin s, xs) = (Fin (s + v), xs @ parsed pf pm b)"
    using True v by (simp add: valueBalance_alt)
  moreover have "sum_list (map (realOf \<circ> usdtValue) (parsed pf pm b)) = v"
    using True v by (simp add: parsed_eq realOf_def)
  ultimately show ?thesis by simp
next
  case False
  then have "parsed pf pm b = []" by (simp add: parsed_eq)
  then show ?thesis using False by (auto simp add: valueBalance_alt)
qed

lemma fold_valueBalance:
  "fold (valueBalance pf pm) bs (Fin s, xs) =
     (Fin (s + sum_list (map (realOf \<circ> usdtValue) (concat (map (parsed pf pm) bs)))),
      xs @ concat (map (parsed pf pm) bs))"
  by (induction bs arbitrary: s xs) (simp_all add: valueBalance_Fin add.assoc)

subsection \<open>The sort\<close>

lemma mset_insertBy: "mset (insertBy cmp x ys) = add_mset x (mset ys)"
  by (induction ys) simp_all

lemma mset_sortBy: "mset (sortBy cmp xs) = mset xs"
  by (induction xs) (simp_all add: sortBy_def mset_insertBy)

lemma set_sortBy: "set (sortBy cmp xs) = set xs"
  using mset_sortBy[of cmp xs] by (metis set_mset_mset)




subsection \<open>The snapshot\<close>

lemma valuate_eq:
  "valuate pf clock ai prices =
     \<lparr>totalUSDT = Fin (sum_list (map (realOf \<circ> usdtValue)
                                   (concat (map (parsed pf (priceMapOf pf prices)) (balances ai))))),
      assets = sortBy (\<lambda>a b. jsub (usdtValue b) (usdtValue a))
                 (concat (map (parsed pf (priceMapOf pf prices)) (balances ai))),
      lastUpdated = clock\<rparr>"
  by (simp add: valuate_def Let_def fold_valueBalance)

lemma set_assets_valuate:
  "set (assets (valuate pf clock ai prices)) =
     (\<Union>b \<in> set (balances ai). set (parsed pf (priceMapOf pf prices) b))"
  by (simp add: valuate_eq set_sortBy)







subsection \<open>The price of an asset\<close>

lemma dom_priceMapOf_fold:
  "dom (fold (\<lambda>p priceMap. priceMap(symbol p \<mapsto> pf (price p))) prices m) = dom m \<union> symbol ` set prices"
  by (induction prices arbitrary: m) auto

lemma priceMapOf_has: "(priceMapOf pf prices k \<noteq> None) = (k \<in> symbol ` set prices)"
  using dom_priceMapOf_fold[of pf prices Map.empty] by (auto simp add: priceMapOf_def dom_def)

lemma resolve_chain:
  "resolve pm a tot =
     (if a = ''USDT'' then (tot, Some (Fin 1))
      else case pm (a @ ''USDT'') of
             Some p \<Rightarrow> (jmul tot p, Some p)
           | None \<Rightarrow>
               (case (pm (a @ ''BTC''), pm ''BTCUSDT'') of
                  (Some q, Some r) \<Rightarrow> (jmul tot (jmul q r), Some (jmul q r))
                | _ \<Rightarrow> (Fin 0, None)))"
  by (simp add: resolve_def Let_def split: option.splits)

lemma listed_from_balance:
  assumes "x \<in> set (assets (valuate pf clock ai prices))"
  shows "\<exists>b \<in> set (balances ai).
           pa_asset x = asset b \<and> pa_total x = toTotal pf b \<and> jgt (toTotal pf b) (Fin 0) \<and>
           (usdtValue x, currentPrice x) = resolve (priceMapOf pf prices) (asset b) (toTotal pf b) \<and>
           jgt (usdtValue x) (Fin 0.01)"
proof -
  obtain b where b: "b \<in> set (balances ai)" "x \<in> set (parsed pf (priceMapOf pf prices) b)"
    using assms by (auto simp add: set_assets_valuate)
  then show ?thesis
    by (intro bexI[of _ b]) (auto simp add: parsed_eq split: if_splits)
qed

text \<open>
  Claim C4. The price of a held asset is settled in this order: USDT is priced 1 and
  valued at its total; otherwise, if the price map has \<open>asset @ USDT\<close>, that price and
  total times it; otherwise, if it has both \<open>asset @ BTC\<close> and \<open>BTCUSDT\<close>, their product
  and total times the product; otherwise there is no price and the value is 0. Every listed
  asset carries the price and value so obtained for its balance, and an asset with no price
  is not listed. The price map has exactly the symbols of the price list.
\<close>

theorem price_follows_fallback_chain:
  assumes "pm = priceMapOf pf prices"
    and "snap = valuate pf clock accountInfo prices"
  shows
    "(\<forall>k. (pm k \<noteq> None) = (k \<in> symbol ` set prices)) \<and>
     (\<forall>a tot. resolve pm a tot =
        (if a = ''USDT'' then (tot, Some (Fin 1))
         else case pm (a @ ''USDT'') of
                Some p \<Rightarrow> (jmul tot p, Some p)
              | None \<Rightarrow>
                  (case (pm (a @ ''BTC''), pm ''BTCUSDT'') of
                     (Some q, Some r) \<Rightarrow> (jmul tot (jmul q r), Some (jmul q r))
                   | _ \<Rightarrow> (Fin 0, None)))) \<and>
     (\<forall>x \<in> set (assets snap).
        (\<exists>b \<in> set (balances accountInfo).
            pa_asset x = asset b \<and>
            pa_total x = jadd (jor (pf (free b)) (Fin 0)) (jor (pf (locked b)) (Fin 0))) \<and>
        jgt (pa_total x) (Fin 0) \<and>
        (usdtValue x, currentPrice x) = resolve pm (pa_asset x) (pa_total x) \<and>
        (if pa_asset x = ''USDT'' then currentPrice x = Some (Fin 1) \<and> usdtValue x = pa_total x
         else case pm (pa_asset x @ ''USDT'') of
                Some p \<Rightarrow> currentPrice x = Some p \<and> usdtValue x = jmul (pa_total x) p
              | None \<Rightarrow>
                  (case (pm (pa_asset x @ ''BTC''), pm ''BTCUSDT'') of
                     (Some q, Some r) \<Rightarrow>
                       currentPrice x = Some (jmul q r) \<and> usdtValue x = jmul (pa_total x) (jmul q r)
                   | _ \<Rightarrow> False))) \<and>
     (\<forall>a. a \<noteq> ''USDT'' \<and> pm (a @ ''USDT'') = None \<and> (pm (a @ ''BTC'') = None \<or> pm ''BTCUSDT'' = None) \<longrightarrow>
          (\<forall>tot. resolve pm a tot = (Fin 0, None)) \<and> a \<notin> pa_asset ` set (assets snap))"
proof (intro conjI allI ballI impI)
  fix k show "(pm k \<noteq> None) = (k \<in> symbol ` set prices)"
    unfolding assms(1) by (rule priceMapOf_has)
next
  fix a tot
  show "resolve pm a tot =
        (if a = ''USDT'' then (tot, Some (Fin 1))
         else case pm (a @ ''USDT'') of
                Some p \<Rightarrow> (jmul tot p, Some p)
              | None \<Rightarrow>
                  (case (pm (a @ ''BTC''), pm ''BTCUSDT'') of
                     (Some q, Some r) \<Rightarrow> (jmul tot (jmul q r), Some (jmul q r))
                   | _ \<Rightarrow> (Fin 0, None)))"
    by (rule resolve_chain)
next
  fix x assume x: "x \<in> set (assets snap)"
  then obtain b where b: "b \<in> set (balances accountInfo)" "pa_asset x = asset b"
      "pa_total x = toTotal pf b" "jgt (toTotal pf b) (Fin 0)"
      "(usdtValue x, currentPrice x) = resolve pm (asset b) (toTotal pf b)"
      "jgt (usdtValue x) (Fin 0.01)"
    using listed_from_balance[of x pf clock accountInfo prices] assms by blast
  show "\<exists>b \<in> set (balances accountInfo).
            pa_asset x = asset b \<and>
            pa_total x = jadd (jor (pf (free b)) (Fin 0)) (jor (pf (locked b)) (Fin 0))"
    using b(1,2,3) by (auto simp add: toTotal_def)
  show "jgt (pa_total x) (Fin 0)" using b(3,4) by simp
  show r: "(usdtValue x, currentPrice x) = resolve pm (pa_asset x) (pa_total x)"
    using b(2,3,5) by simp
  show "if pa_asset x = ''USDT'' then currentPrice x = Some (Fin 1) \<and> usdtValue x = pa_total x
         else case pm (pa_asset x @ ''USDT'') of
                Some p \<Rightarrow> currentPrice x = Some p \<and> usdtValue x = jmul (pa_total x) p
              | None \<Rightarrow>
                  (case (pm (pa_asset x @ ''BTC''), pm ''BTCUSDT'') of
                     (Some q, Some r) \<Rightarrow>
                       currentPrice x = Some (jmul q r) \<and> usdtValue x = jmul (pa_total x) (jmul q r)
                   | _ \<Rightarrow> False)"
    using r b(6) by (auto simp add: resolve_chain split: option.splits if_splits)
next
  fix a tot
  assume a: "a \<noteq> ''USDT'' \<and> pm (a @ ''USDT'') = None \<and> (pm (a @ ''BTC'') = None \<or> pm ''BTCUSDT'' = None)"
  then show "resolve pm a tot = (Fin 0, None)"
    by (auto simp add: resolve_chain split: option.splits)
next
  fix a
  assume a: "a \<noteq> ''USDT'' \<and> pm (a @ ''USDT'') = None \<and> (pm (a @ ''BTC'') = None \<or> pm ''BTCUSDT'' = None)"
  show "a \<notin> pa_asset ` set (assets snap)"
  proof
    assume "a \<in> pa_asset ` set (assets snap)"
    then obtain x where x: "x \<in> set (assets snap)" "pa_asset x = a" by auto
    then obtain b where b: "pa_asset x = asset b"
      "(usdtValue x, currentPrice x) = resolve pm (asset b) (toTotal pf b)"
      "jgt (usdtValue x) (Fin 0.01)"
      using listed_from_balance[of x pf clock accountInfo prices] assms by blast
    have "resolve pm (asset b) (toTotal pf b) = (Fin 0, None)"
      using a x(2) b(1) by (auto simp add: resolve_chain split: option.splits)
    then show False using b(2,3) by simp
  qed
qed


theorem price_follows_fallback_chain_witness:
  "assets (valuate pf0 0 acctMixed pricesBridge) =
     [\<lparr>pa_asset = ''BTC'', pa_free = Fin 1, pa_locked = Fin 0, pa_total = Fin 1,
        usdtValue = Fin 50000, pa_type = spot, currentPrice = Some (Fin 50000)\<rparr>,
      \<lparr>pa_asset = ''XYZ'', pa_free = Fin 2, pa_locked = Fin 0, pa_total = Fin 2,
        usdtValue = Fin 1000, pa_type = spot, currentPrice = Some (Fin 500)\<rparr>,
      \<lparr>pa_asset = ''USDT'', pa_free = Fin 100, pa_locked = Fin 0, pa_total = Fin 100,
        usdtValue = Fin 100, pa_type = spot, currentPrice = Some (Fin 1)\<rparr>] \<and>
   resolve (priceMapOf pf0 pricesBridge) ''XYZ'' (Fin 2) = (Fin 1000, Some (Fin 500)) \<and>
   resolve (priceMapOf pf0 pricesBridge) ''ABC'' (Fin 1) = (Fin 0, None) \<and>
   ''ABC'' \<notin> pa_asset ` set (assets (valuate pf0 0 acctMixed pricesBridge))"
proof -
  note chain = price_follows_fallback_chain[OF refl refl, of pf0 pricesBridge 0 acctMixed]
  have pm: "priceMapOf pf0 pricesBridge (''ABC'' @ ''USDT'') = None"
           "priceMapOf pf0 pricesBridge (''ABC'' @ ''BTC'') = None"
    by (simp_all add: priceMapOf_def pricesBridge_def)
  have abc: "''ABC'' \<notin> pa_asset ` set (assets (valuate pf0 0 acctMixed pricesBridge))"
            "resolve (priceMapOf pf0 pricesBridge) ''ABC'' (Fin 1) = (Fin 0, None)"
    using chain pm by auto
  have xyz: "resolve (priceMapOf pf0 pricesBridge) ''XYZ'' (Fin 2) = (Fin 1000, Some (Fin 500))"
    by (simp add: resolve_def priceMapOf_def pricesBridge_def pf0_def)
  have l: "assets (valuate pf0 0 acctMixed pricesBridge) =
     [\<lparr>pa_asset = ''BTC'', pa_free = Fin 1, pa_locked = Fin 0, pa_total = Fin 1,
        usdtValue = Fin 50000, pa_type = spot, currentPrice = Some (Fin 50000)\<rparr>,
      \<lparr>pa_asset = ''XYZ'', pa_free = Fin 2, pa_locked = Fin 0, pa_total = Fin 2,
        usdtValue = Fin 1000, pa_type = spot, currentPrice = Some (Fin 500)\<rparr>,
      \<lparr>pa_asset = ''USDT'', pa_free = Fin 100, pa_locked = Fin 0, pa_total = Fin 100,
        usdtValue = Fin 100, pa_type = spot, currentPrice = Some (Fin 1)\<rparr>]"
    by (simp add: valuation_defs Let_def acctMixed_def pricesBridge_def pf0_def)
  show ?thesis using l xyz abc by simp
qed

subsection \<open>The materiality threshold\<close>

lemma parsed_asset: "x \<in> set (parsed pf pm b) \<Longrightarrow> pa_asset x = asset b"
  by (auto simp add: parsed_eq split: if_splits)

text \<open>
  Claim C6. A balance with positive total is listed exactly when its value exceeds 0.01:
  its entry is among the assets if and only if \<open>usdtValue > 0.01\<close>, and when the
  balances name each asset once the same holds of its name. Every listed value exceeds
  0.01; a value of 0.005 and the value 0 of an asset without a price keep their assets out.
\<close>

theorem listed_iff_value_exceeds_threshold:
  assumes "pm = priceMapOf pf prices"
    and "snap = valuate pf clock accountInfo prices"
    and "b \<in> set (balances accountInfo)"
    and "tot = jadd (jor (pf (free b)) (Fin 0)) (jor (pf (locked b)) (Fin 0))"
    and "jgt tot (Fin 0)"
    and "entry = \<lparr>pa_asset = asset b, pa_free = jor (pf (free b)) (Fin 0),
                   pa_locked = jor (pf (locked b)) (Fin 0), pa_total = tot,
                   usdtValue = fst (resolve pm (asset b) tot), pa_type = spot,
                   currentPrice = snd (resolve pm (asset b) tot)\<rparr>"
  shows "(entry \<in> set (assets snap) \<longleftrightarrow> jgt (fst (resolve pm (asset b) tot)) (Fin 0.01)) \<and>
         (distinct (map asset (balances accountInfo)) \<longrightarrow>
            (asset b \<in> pa_asset ` set (assets snap) \<longleftrightarrow> jgt (fst (resolve pm (asset b) tot)) (Fin 0.01))) \<and>
         (\<forall>x \<in> set (assets snap). jgt (usdtValue x) (Fin 0.01))"
proof (intro conjI impI ballI)
  have tot: "tot = toTotal pf b" by (simp add: assms(4) toTotal_def)
  have set_eq: "set (assets snap) = (\<Union>b' \<in> set (balances accountInfo). set (parsed pf pm b'))"
    by (simp add: assms(1,2) set_assets_valuate)
  have mine: "parsed pf pm b = (if jgt (fst (resolve pm (asset b) tot)) (Fin 0.01) then [entry] else [])"
    using assms(5) by (simp add: parsed_eq tot[symmetric] assms(6))
  show e: "entry \<in> set (assets snap) \<longleftrightarrow> jgt (fst (resolve pm (asset b) tot)) (Fin 0.01)"
  proof
    assume "entry \<in> set (assets snap)"
    then obtain b' where "entry \<in> set (parsed pf pm b')" by (auto simp add: set_eq)
    then have "jgt (usdtValue entry) (Fin 0.01)"
      by (auto simp add: parsed_eq split: if_splits)
    then show "jgt (fst (resolve pm (asset b) tot)) (Fin 0.01)" by (simp add: assms(6))
  next
    assume "jgt (fst (resolve pm (asset b) tot)) (Fin 0.01)"
    then have "entry \<in> set (parsed pf pm b)" by (simp add: mine)
    then show "entry \<in> set (assets snap)" using assms(3) by (auto simp add: set_eq)
  qed
  {
    assume d: "distinct (map asset (balances accountInfo))"
    show "asset b \<in> pa_asset ` set (assets snap) \<longleftrightarrow> jgt (fst (resolve pm (asset b) tot)) (Fin 0.01)"
    proof
      assume "asset b \<in> pa_asset ` set (assets snap)"
      then obtain x b' where x: "b' \<in> set (balances accountInfo)" "x \<in> set (parsed pf pm b')"
          "pa_asset x = asset b"
        by (auto simp add: set_eq)
      then have "asset b' = asset b" using parsed_asset by metis
      then have "b' = b"
        using d x(1) assms(3) by (auto simp add: distinct_map inj_on_def)
      then show "jgt (fst (resolve pm (asset b) tot)) (Fin 0.01)"
        using x(2) by (auto simp add: mine split: if_splits)
    next
      assume "jgt (fst (resolve pm (asset b) tot)) (Fin 0.01)"
      then have "entry \<in> set (assets snap)" using e by simp
      moreover have "pa_asset entry = asset b" by (simp add: assms(6))
      ultimately show "asset b \<in> pa_asset ` set (assets snap)" by force
    qed
  }
  fix x assume "x \<in> set (assets snap)"
  then obtain b' where "x \<in> set (parsed pf pm b')" by (auto simp add: set_eq)
  then show "jgt (usdtValue x) (Fin 0.01)"
    by (auto simp add: parsed_eq split: if_splits)
qed


theorem listed_iff_value_exceeds_threshold_witness:
  "fst (resolve (priceMapOf pf0 pricesDust) ''DUST'' (Fin 0.005)) = Fin 0.005 \<and>
   fst (resolve (priceMapOf pf0 pricesDust) ''ABC'' (Fin 1)) = Fin 0 \<and>
   fst (resolve (priceMapOf pf0 pricesDust) ''BTC'' (Fin 1)) = Fin 50000 \<and>
   ''DUST'' \<notin> pa_asset ` set (assets (valuate pf0 0 acctDust pricesDust)) \<and>
   ''ABC'' \<notin> pa_asset ` set (assets (valuate pf0 0 acctDust pricesDust)) \<and>
   ''BTC'' \<in> pa_asset ` set (assets (valuate pf0 0 acctDust pricesDust)) \<and>
   assets (valuate pf0 0 acctDust pricesDust) =
     [\<lparr>pa_asset = ''BTC'', pa_free = Fin 1, pa_locked = Fin 0, pa_total = Fin 1,
        usdtValue = Fin 50000, pa_type = spot, currentPrice = Some (Fin 50000)\<rparr>]"
proof -
  have d: "distinct (map asset (balances acctDust))"
    by (simp add: acctDust_def)
  have r: "fst (resolve (priceMapOf pf0 pricesDust) ''DUST'' (Fin 0.005)) = Fin 0.005"
          "fst (resolve (priceMapOf pf0 pricesDust) ''ABC'' (Fin 1)) = Fin 0"
          "fst (resolve (priceMapOf pf0 pricesDust) ''BTC'' (Fin 1)) = Fin 50000"
    by (simp_all add: resolve_def Let_def priceMapOf_def pricesDust_def pf0_def)
  have "''DUST'' \<notin> pa_asset ` set (assets (valuate pf0 0 acctDust pricesDust))"
    using listed_iff_value_exceeds_threshold[OF refl refl _ refl _ refl,
            of "\<lparr>asset = ''DUST'', free = ''0.005'', locked = ''0''\<rparr>" acctDust pf0 pricesDust 0] d r
    by (simp add: acctDust_def pf0_def jor_def)
  moreover have "''ABC'' \<notin> pa_asset ` set (assets (valuate pf0 0 acctDust pricesDust))"
    using listed_iff_value_exceeds_threshold[OF refl refl _ refl _ refl,
            of "\<lparr>asset = ''ABC'', free = ''1'', locked = ''0''\<rparr>" acctDust pf0 pricesDust 0] d r
    by (simp add: acctDust_def pf0_def jor_def)
  moreover have "''BTC'' \<in> pa_asset ` set (assets (valuate pf0 0 acctDust pricesDust))"
    using listed_iff_value_exceeds_threshold[OF refl refl _ refl _ refl,
            of "\<lparr>asset = ''BTC'', free = ''1'', locked = ''0''\<rparr>" acctDust pf0 pricesDust 0] d r
    by (simp add: acctDust_def pf0_def jor_def)
  moreover have "assets (valuate pf0 0 acctDust pricesDust) =
     [\<lparr>pa_asset = ''BTC'', pa_free = Fin 1, pa_locked = Fin 0, pa_total = Fin 1,
        usdtValue = Fin 50000, pa_type = spot, currentPrice = Some (Fin 50000)\<rparr>]"
    by (simp add: valuation_defs Let_def acctDust_def pricesDust_def pf0_def)
  ultimately show ?thesis using r by simp
qed

end
